theory Spec2Isabelle
  imports Complex_Main "HOL-Library.Word"
begin

section \<open>Python values used by \<open>asyncirc/irc.py\<close>\<close>

text \<open>
  A Python \<open>str\<close> is a sequence of Unicode code points, a \<open>bytes\<close> object a sequence
  of octets. Code points are natural numbers (a \<open>str\<close> only holds values up to
  \<open>0x10FFFF\<close>); string literals of the source are written with \<open>str\<close>.
\<close>

type_synonym codepoint = nat
type_synonym pystr = "nat list"
type_synonym bytes = "8 word list"

definition str :: "string \<Rightarrow> pystr" where
  "str s = map of_char s"

text \<open>The exceptions that the modelled statements can raise.\<close>

datatype exn =
    ValueError
  | IndexError
  | TypeError
  | AttributeError
  | UnicodeDecodeError
  | UnicodeEncodeError
  | OSError

subsection \<open>\<open>str.split(sep, maxsplit=1)\<close>, unpacking, \<open>str.format\<close>, \<open>str.join\<close>\<close>

text \<open>
  \<open>s.split(sep, maxsplit=1)\<close> for a one-character separator: the text before the first
  separator and the text after it, or \<open>s\<close> alone when the separator does not occur.
\<close>

definition split_once :: "codepoint \<Rightarrow> pystr \<Rightarrow> pystr list" where
  "split_once sep s =
     (if sep \<in> set s
      then [takeWhile (\<lambda>c. c \<noteq> sep) s, tl (dropWhile (\<lambda>c. c \<noteq> sep) s)]
      else [s])"

text \<open>\<open>a, b = xs\<close> raises \<open>ValueError\<close> unless \<open>xs\<close> has exactly two items.\<close>

definition unpack2 :: "'a list \<Rightarrow> exn + ('a \<times> 'a)" where
  "unpack2 xs = (case xs of [a, b] \<Rightarrow> Inr (a, b) | _ \<Rightarrow> Inl ValueError)"

text \<open>\<open>"{}".format(x)\<close> for \<open>x\<close> a \<open>str\<close> or \<open>None\<close>.\<close>

definition fmt :: "pystr option \<Rightarrow> pystr" where
  "fmt x = (case x of None \<Rightarrow> str ''None'' | Some s \<Rightarrow> s)"

text \<open>\<open>sep.join(xs)\<close> for a sequence of \<open>str\<close>.\<close>

fun join_str :: "pystr \<Rightarrow> pystr list \<Rightarrow> pystr" where
  "join_str sep [] = []"
| "join_str sep [x] = x"
| "join_str sep (x # y # ys) = x @ sep @ join_str sep (y # ys)"

subsection \<open>\<open>str.encode()\<close> and \<open>bytes.decode()\<close>: strict UTF-8\<close>

text \<open>
  Both calls of the source use the defaults: UTF-8, errors \<open>strict\<close>. Encoding raises
  \<open>UnicodeEncodeError\<close> on a surrogate code point, decoding raises
  \<open>UnicodeDecodeError\<close> on any octet sequence that is not well-formed UTF-8 (a
  truncated sequence included). \<open>None\<close> stands for the raise.
\<close>

definition cont :: "8 word \<Rightarrow> bool" where
  "cont b = (0x80 \<le> unat b \<and> unat b \<le> 0xBF)"

definition encode_cp :: "codepoint \<Rightarrow> bytes option" where
  "encode_cp c =
     (if c < 0x80 then Some [of_nat c]
      else if c < 0x800 then Some [of_nat (0xC0 + c div 64), of_nat (0x80 + c mod 64)]
      else if c < 0x10000 then
        (if 0xD800 \<le> c \<and> c \<le> 0xDFFF then None
         else Some [of_nat (0xE0 + c div 4096), of_nat (0x80 + c div 64 mod 64),
                    of_nat (0x80 + c mod 64)])
      else if c < 0x110000 then
        Some [of_nat (0xF0 + c div 262144), of_nat (0x80 + c div 4096 mod 64),
              of_nat (0x80 + c div 64 mod 64), of_nat (0x80 + c mod 64)]
      else None)"

fun encode :: "pystr \<Rightarrow> bytes option" where
  "encode [] = Some []"
| "encode (c # cs) =
     (case encode_cp c of
        None \<Rightarrow> None
      | Some b \<Rightarrow> (case encode cs of None \<Rightarrow> None | Some bs \<Rightarrow> Some (b @ bs)))"

fun decode_one :: "bytes \<Rightarrow> (codepoint \<times> bytes) option" where
  "decode_one [] = None"
| "decode_one (b0 # bs) =
     (let n0 = unat b0 in
      if n0 < 0x80 then Some (n0, bs)
      else if 0xC2 \<le> n0 \<and> n0 \<le> 0xDF then
        (case bs of
           b1 # r \<Rightarrow>
             if cont b1 then Some ((n0 - 0xC0) * 64 + (unat b1 - 0x80), r) else None
         | _ \<Rightarrow> None)
      else if 0xE0 \<le> n0 \<and> n0 \<le> 0xEF then
        (case bs of
           b1 # b2 # r \<Rightarrow>
             if (if n0 = 0xE0 then 0xA0 else 0x80) \<le> unat b1
                \<and> unat b1 \<le> (if n0 = 0xED then 0x9F else 0xBF) \<and> cont b2
             then Some ((n0 - 0xE0) * 4096 + (unat b1 - 0x80) * 64 + (unat b2 - 0x80), r)
             else None
         | _ \<Rightarrow> None)
      else if 0xF0 \<le> n0 \<and> n0 \<le> 0xF4 then
        (case bs of
           b1 # b2 # b3 # r \<Rightarrow>
             if (if n0 = 0xF0 then 0x90 else 0x80) \<le> unat b1
                \<and> unat b1 \<le> (if n0 = 0xF4 then 0x8F else 0xBF) \<and> cont b2 \<and> cont b3
             then Some ((n0 - 0xF0) * 262144 + (unat b1 - 0x80) * 4096
                         + (unat b2 - 0x80) * 64 + (unat b3 - 0x80), r)
             else None
         | _ \<Rightarrow> None)
      else None)"

function decode :: "bytes \<Rightarrow> pystr option" where
  "decode bs =
     (if bs = [] then Some []
      else (case decode_one bs of
              None \<Rightarrow> None
            | Some (c, r) \<Rightarrow> (case decode r of None \<Rightarrow> None | Some cs \<Rightarrow> Some (c # cs))))"
  by pat_completeness auto
termination
proof (relation "measure length")
  show "wf (measure length)" by simp
next
  fix bs :: bytes and x2 c r
  assume "bs \<noteq> []" "decode_one bs = Some x2" "(c, r) = x2"
  then show "(r, bs) \<in> measure length"
    by (cases bs) (auto simp: Let_def split: if_splits list.splits)
qed

declare decode.simps [simp del]

subsection \<open>\<open>str.strip()\<close> and \<open>str.upper()\<close>\<close>

text \<open>
  \<open>str.strip()\<close> without argument removes, at both ends, every character for which
  \<open>str.isspace\<close> holds.
\<close>

definition isspace :: "codepoint \<Rightarrow> bool" where
  "isspace c =
     ((0x09 \<le> c \<and> c \<le> 0x0D) \<or> (0x1C \<le> c \<and> c \<le> 0x20) \<or> c = 0x85 \<or> c = 0xA0
      \<or> c = 0x1680 \<or> (0x2000 \<le> c \<and> c \<le> 0x200A) \<or> c = 0x2028 \<or> c = 0x2029
      \<or> c = 0x202F \<or> c = 0x205F \<or> c = 0x3000)"

definition strip :: "pystr \<Rightarrow> pystr" where
  "strip s = rev (dropWhile isspace (rev (dropWhile isspace s)))"

text \<open>
  \<open>str.upper()\<close> maps each character on its own. On ASCII it turns \<open>a\<close>..\<open>z\<close> into
  \<open>A\<close>..\<open>Z\<close> and keeps the rest; beyond ASCII it follows the Unicode tables of the
  interpreter, which are no part of the repository and are taken as the parameter
  \<open>tbl\<close> (one character may become several).
\<close>

definition upper_cp :: "(codepoint \<Rightarrow> pystr) \<Rightarrow> codepoint \<Rightarrow> pystr" where
  "upper_cp tbl c =
     (if c < 0x80 then [if 0x61 \<le> c \<and> c \<le> 0x7A then c - 0x20 else c] else tbl c)"

definition upper :: "(codepoint \<Rightarrow> pystr) \<Rightarrow> pystr \<Rightarrow> pystr" where
  "upper tbl s = concat (map (upper_cp tbl) s)"

section \<open>\<open>User\<close> and \<open>User.from_hostmask\<close>\<close>

record user =
  nick :: "pystr option"
  user :: "pystr option"
  host :: pystr
  hostmask :: pystr
  register_wait :: int

definition User :: "pystr option \<Rightarrow> pystr option \<Rightarrow> pystr \<Rightarrow> user" where
  "User n u h =
     \<lparr>nick = n, user = u, host = h,
      hostmask = fmt n @ str ''!'' @ fmt u @ str ''@'' @ h,
      register_wait = 0\<rparr>"

definition from_hostmask :: "pystr \<Rightarrow> exn + user" where
  "from_hostmask hm =
     (if of_char CHR ''!'' \<in> set hm \<and> of_char CHR ''@'' \<in> set hm then
        (case unpack2 (split_once (of_char CHR ''!'') hm) of
           Inl e \<Rightarrow> Inl e
         | Inr (n, userhost) \<Rightarrow>
             (case unpack2 (split_once (of_char CHR ''@'') userhost) of
                Inl e \<Rightarrow> Inl e
              | Inr (u, h) \<Rightarrow> Inr (User (Some n) (Some u) h)))
      else Inr (User None None hm))"

text \<open>\<open>get_user\<close> returns the bare string when the hostmask has no identity structure.\<close>

definition get_user :: "pystr \<Rightarrow> exn + (pystr + user)" where
  "get_user hm =
     (if of_char CHR ''!'' \<notin> set hm \<or> of_char CHR ''@'' \<notin> set hm then Inr (Inl hm)
      else (case from_hostmask hm of Inl e \<Rightarrow> Inl e | Inr u \<Rightarrow> Inr (Inr u)))"

section \<open>The connection object and the process-wide state\<close>

text \<open>
  A line handed to \<open>writeln\<close> is a \<open>str\<close> or a \<open>bytes\<close> object: \<open>_writeln\<close> tests
  \<open>isinstance(line, bytes)\<close>.
\<close>

datatype line = Str pystr | Bytes bytes

text \<open>
  Objects are named by their identity. The sender of a signal is a protocol object, a
  wrapper object, \<open>None\<close> or a \<open>str\<close>. \<open>Send name sender kwargs\<close> records one call
  \<open>signal(name).send(sender, **kwargs)\<close>.
\<close>

datatype obj = Protocol nat | Wrapper nat | NoneObj | StrObj pystr

datatype event = Send string obj "(string \<times> pystr) list"

text \<open>The only callback the source hands to \<open>loop.call_later\<close>: \<open>process_queue\<close> of a protocol.\<close>

datatype callback = ProcessQueue nat

datatype pyfloat = Finite rat | Infinity

record server_info =
  si_host :: pystr
  si_port :: int
  si_ssl :: bool

text \<open>
  The fields of an \<open>IRCProtocol\<close> instance. \<open>self_id\<close> is the identity of the object.
  \<open>transport\<close> holds what the object behind it has received: the buffers passed to
  \<open>send\<close> of the transport's socket, oldest first. \<open>server_info\<close> is \<open>None\<close> while the
  instance has no such attribute. The logger is left out.
\<close>

record conn =
  self_id :: nat
  transport :: "bytes list"
  wrapper :: "nat option"
  last_ping :: pyfloat
  last_pong :: pyfloat
  buf :: pystr
  old_nickname :: "pystr option"
  nickname :: pystr
  server_supports :: "(pystr \<times> pystr) list"
  queue :: "line list"
  queue_timer :: rat
  caps :: "pystr list"
  server_info :: "server_info option"

text \<open>
  The state shared by the whole process: the signals sent so far (oldest first), the
  \<open>call_later\<close> requests that have not fired yet with their delays, the module's global
  \<open>plugins\<close> list and the names \<open>importlib.import_module\<close> was called with. Receivers that
  other modules connect to a signal are outside the source and are not run by the model;
  the two receivers this module connects itself are \<open>plugin_registered_handler\<close> and
  \<open>reconnect\<close>.
\<close>

record runtime =
  signals :: "event list"
  timers :: "(rat \<times> callback) list"
  plugins :: "pystr list"
  imported :: "pystr list"

definition send_signal :: "string \<Rightarrow> obj \<Rightarrow> (string \<times> pystr) list \<Rightarrow> runtime \<Rightarrow> runtime" where
  "send_signal name sender kwargs rt = rt\<lparr>signals := signals rt @ [Send name sender kwargs]\<rparr>"

definition call_later :: "rat \<Rightarrow> callback \<Rightarrow> runtime \<Rightarrow> runtime" where
  "call_later delay cb rt = rt\<lparr>timers := timers rt @ [(delay, cb)]\<rparr>"

section \<open>Plugins\<close>

definition plugin_registered_handler :: "pystr \<Rightarrow> runtime \<Rightarrow> runtime" where
  "plugin_registered_handler plugin_name rt = rt\<lparr>plugins := plugins rt @ [plugin_name]\<rparr>"

text \<open>
  \<open>importlib.import_module(plugin)\<close>: the call is recorded, then the module body runs.
  What a module body does (it may raise, it may register plugins) is the parameter
  \<open>body\<close>.
\<close>

definition import_module ::
  "(pystr \<Rightarrow> runtime \<Rightarrow> exn + runtime) \<Rightarrow> pystr \<Rightarrow> runtime \<Rightarrow> exn + runtime" where
  "import_module body name rt = body name (rt\<lparr>imported := imported rt @ [name]\<rparr>)"

text \<open>
  \<open>load_plugins(*plugins)\<close>: the parameter shadows the global list, so the test
  \<open>plugin not in plugins\<close> reads the argument tuple \<open>args\<close>.
\<close>

fun load_plugins_loop ::
  "(pystr \<Rightarrow> runtime \<Rightarrow> exn + runtime) \<Rightarrow> pystr list \<Rightarrow> pystr list \<Rightarrow> runtime \<Rightarrow> exn + runtime" where
  "load_plugins_loop body args [] rt = Inr rt"
| "load_plugins_loop body args (plugin # rest) rt =
     (if plugin \<notin> set args then
        (case import_module body plugin rt of
           Inl e \<Rightarrow> Inl e
         | Inr rt' \<Rightarrow> load_plugins_loop body args rest rt')
      else load_plugins_loop body args rest rt)"

definition load_plugins ::
  "(pystr \<Rightarrow> runtime \<Rightarrow> exn + runtime) \<Rightarrow> pystr list \<Rightarrow> runtime \<Rightarrow> exn + runtime" where
  "load_plugins body args rt = load_plugins_loop body args args rt"

section \<open>\<open>IRCProtocol\<close>\<close>

subsection \<open>Outbound queue\<close>

definition writeln :: "conn \<Rightarrow> line \<Rightarrow> conn" where
  "writeln c l = c\<lparr>queue := queue c @ [l]\<rparr>"

text \<open>
  \<open>_writeln(line)\<close>: a \<open>str\<close> is encoded, the octets and \<open>\r\n\<close> go to the socket, then
  \<open>irc-send\<close> is sent with the decoded line as the only positional argument of \<open>send\<close>,
  which is the sender; no keyword argument is passed. An exception leaves the effects
  that came before it.
\<close>

definition crlf :: bytes where
  "crlf = [0x0D, 0x0A]"

definition writeln_raw :: "conn \<Rightarrow> line \<Rightarrow> runtime \<Rightarrow> exn option \<times> conn \<times> runtime" where
  "writeln_raw c l rt =
     (case (case l of Bytes b \<Rightarrow> Some b | Str s \<Rightarrow> encode s) of
        None \<Rightarrow> (Some UnicodeEncodeError, c, rt)
      | Some b \<Rightarrow>
          (let c1 = c\<lparr>transport := transport c @ [b @ crlf]\<rparr> in
           case decode b of
             None \<Rightarrow> (Some UnicodeDecodeError, c1, rt)
           | Some t \<Rightarrow> (None, c1, send_signal ''irc-send'' (StrObj t) [] rt)))"

text \<open>
  \<open>process_queue\<close>: \<open>self.queue.pop(0)\<close> is evaluated before \<open>_writeln\<close> is called;
  \<open>call_later\<close> is reached only when \<open>_writeln\<close> returns.
\<close>

definition process_queue :: "conn \<Rightarrow> runtime \<Rightarrow> exn option \<times> conn \<times> runtime" where
  "process_queue c rt =
     (case queue c of
        [] \<Rightarrow> (None, c, call_later (queue_timer c) (ProcessQueue (self_id c)) rt)
      | l # q \<Rightarrow>
          (case writeln_raw (c\<lparr>queue := q\<rparr>) l rt of
             (Some e, c', rt') \<Rightarrow> (Some e, c', rt')
           | (None, c', rt') \<Rightarrow>
               (None, c', call_later (queue_timer c') (ProcessQueue (self_id c')) rt')))"

text \<open>
  A firing of the timer: the event loop takes the pending request and calls the
  callback. The loop catches an exception of a callback and logs it, so a firing
  itself never raises; what the callback did before it raised stays.
\<close>

definition fire :: "conn \<times> runtime \<Rightarrow> conn \<times> runtime" where
  "fire s =
     (case s of (c, rt) \<Rightarrow>
        (case timers rt of
           [] \<Rightarrow> (c, rt)
         | (delay, ProcessQueue p) # ts \<Rightarrow>
             (if p = self_id c then snd (process_queue c (rt\<lparr>timers := ts\<rparr>)) else (c, rt))))"

subsection \<open>\<open>connection_made\<close>, \<open>data_received\<close>\<close>

definition connection_made :: "nat \<Rightarrow> runtime \<Rightarrow> exn option \<times> conn \<times> runtime" where
  "connection_made ident rt =
     process_queue
       \<lparr>self_id = ident, transport = [], wrapper = None, last_ping = Infinity,
        last_pong = Finite 0, buf = [], old_nickname = None, nickname = [],
        server_supports = [], queue = [], queue_timer = 3 / 2, caps = [],
        server_info = None\<rparr>
       (send_signal ''connected'' (Protocol ident) [] rt)"

definition NL :: codepoint where
  "NL = 0x0A"

text \<open>The \<open>while "\n" in self.buf\<close> loop of \<open>data_received\<close>.\<close>

function frame_loop :: "conn \<Rightarrow> runtime \<Rightarrow> conn \<times> runtime" where
  "frame_loop c rt =
     (if NL \<in> set (buf c) then
        (let index = length (takeWhile (\<lambda>x. x \<noteq> NL) (buf c));
             line_received = strip (take index (buf c));
             c1 = c\<lparr>buf := drop (index + 1) (buf c)\<rparr>
         in frame_loop c1
              (send_signal ''raw'' (Protocol (self_id c)) [(''text'', line_received)] rt))
      else (c, rt))"
  by pat_completeness auto
termination
  by (relation "measure (\<lambda>(c, rt). length (buf c))") (auto dest!: length_pos_if_in_set)

declare frame_loop.simps [simp del]

definition data_received :: "conn \<Rightarrow> bytes \<Rightarrow> runtime \<Rightarrow> exn option \<times> conn \<times> runtime" where
  "data_received c data rt =
     (case decode data of
        None \<Rightarrow> (Some UnicodeDecodeError, c, rt)
      | Some t \<Rightarrow> (case frame_loop (c\<lparr>buf := buf c @ t\<rparr>) rt of (c', rt') \<Rightarrow> (None, c', rt')))"

text \<open>Successive receipts; the first exception ends the run.\<close>

fun feed :: "conn \<Rightarrow> runtime \<Rightarrow> bytes list \<Rightarrow> exn option \<times> conn \<times> runtime" where
  "feed c rt [] = (None, c, rt)"
| "feed c rt (d # ds) =
     (case data_received c d rt of
        (Some e, c', rt') \<Rightarrow> (Some e, c', rt')
      | (None, c', rt') \<Rightarrow> feed c' rt' ds)"

text \<open>The sender that \<open>connection_lost\<close> passes: \<open>self.wrapper\<close>.\<close>

definition wrapper_obj :: "nat option \<Rightarrow> obj" where
  "wrapper_obj w = (case w of None \<Rightarrow> NoneObj | Some i \<Rightarrow> Wrapper i)"

subsection \<open>Protocol operations\<close>

text \<open>\<open>if password:\<close> holds for a \<open>str\<close> that is not empty; it fails for \<open>None\<close> and \<open>""\<close>.\<close>

definition truthy :: "pystr option \<Rightarrow> bool" where
  "truthy p = (case p of None \<Rightarrow> False | Some s \<Rightarrow> s \<noteq> [])"

definition default_mode :: pystr where
  "default_mode = str ''+i''"

definition register ::
  "conn \<Rightarrow> pystr \<Rightarrow> pystr \<Rightarrow> pystr \<Rightarrow> pystr \<Rightarrow> pystr option \<Rightarrow> runtime \<Rightarrow> conn \<times> runtime" where
  "register c nick_arg user_arg realname mode password rt =
     (let c1 = (if truthy password then writeln c (Str (str ''PASS '' @ fmt password)) else c);
          c2 = writeln c1
                 (Str (str ''USER '' @ user_arg @ str '' '' @ mode @ str '' '' @ user_arg
                        @ str '' :'' @ realname));
          c3 = writeln c2 (Str (str ''NICK '' @ nick_arg));
          rt1 = send_signal ''registration-complete'' (Protocol (self_id c3)) [] rt
      in (c3\<lparr>nickname := nick_arg\<rparr>, rt1))"

text \<open>\<open>join\<close> and \<open>part\<close> take one channel name or a list of names.\<close>

datatype channels = One pystr | Many "pystr list"

definition channel_list :: "channels \<Rightarrow> pystr list" where
  "channel_list chs = (case chs of One x \<Rightarrow> [x] | Many xs \<Rightarrow> xs)"

definition join :: "conn \<Rightarrow> channels \<Rightarrow> conn" where
  "join c chs = writeln c (Str (str ''JOIN '' @ join_str (str '','') (channel_list chs)))"

definition part :: "conn \<Rightarrow> channels \<Rightarrow> conn" where
  "part c chs = writeln c (Str (str ''PART '' @ join_str (str '','') (channel_list chs)))"

function say :: "conn \<Rightarrow> pystr \<Rightarrow> pystr \<Rightarrow> conn" where
  "say c target_str message =
     (if message \<noteq> [] then
        say (writeln c (Str (str ''PRIVMSG '' @ target_str @ str '' :'' @ take 400 message)))
          target_str (drop 400 message)
      else c)"
  by pat_completeness auto
termination
  by (relation "measure (\<lambda>(c, t, m). length m)") auto

declare say.simps [simp del]

text \<open>
  The chunks as the specification words them: the successive substrings of at most \<open>n\<close>
  characters, the \<open>i\<close>-th one starting at position \<open>i * n\<close>.
\<close>

definition spec_chunks :: "nat \<Rightarrow> 'a list \<Rightarrow> 'a list list" where
  "spec_chunks n s = map (\<lambda>i. take n (drop (i * n) s)) [0 ..< (length s + n - 1) div n]"

text \<open>
  The closure \<open>_send_command\<close> that \<open>__getattr__\<close> returns for the attribute name
  \<open>attr\<close>, called with \<open>args\<close>. \<open>args[-1]\<close> raises \<open>IndexError\<close> on the empty tuple.
\<close>

definition send_command ::
  "(codepoint \<Rightarrow> pystr) \<Rightarrow> conn \<Rightarrow> pystr \<Rightarrow> pystr list \<Rightarrow> exn + conn" where
  "send_command tbl c attr args =
     (if args = [] then Inl IndexError
      else (let argstr = join_str (str '' '') (butlast args) @ str '' :'' @ last args
            in Inr (writeln c (Str (upper tbl attr @ str '' '' @ argstr)))))"

section \<open>\<open>connect\<close>, \<open>reconnect\<close> and the wrapper\<close>

text \<open>
  The objects of the process: the \<open>IRCProtocol\<close> instances and the
  \<open>IRCProtocolWrapper\<close> instances (each holds the identity of its \<open>protocol\<close>), by
  identity; \<open>fresh\<close> is the next unused identity.
\<close>

record world =
  protocols :: "nat \<Rightarrow> conn option"
  wrappers :: "nat \<Rightarrow> nat option"
  fresh :: nat
  process :: runtime

text \<open>
  What \<open>client_wrapper.server_info\<close> evaluates to. The wrapper has no such attribute,
  so its \<open>__getattr__\<close> asks the protocol. A protocol that has the attribute gives the
  dictionary; for one that has not, \<open>IRCProtocol.__getattr__\<close> runs and returns the
  closure \<open>_send_command\<close> for the name \<open>server_info\<close>.
\<close>

datatype attr_value = Mapping server_info | Closure nat string

definition getattr_server_info :: "conn \<Rightarrow> attr_value" where
  "getattr_server_info c =
     (case server_info c of
        Some info \<Rightarrow> Mapping info
      | None \<Rightarrow> Closure (self_id c) ''server_info'')"

text \<open>
  \<open>loop.run_until_complete(loop.create_connection(IRCProtocol, ...))\<close>: when the server
  cannot be reached (\<open>up\<close> is false) the call raises; otherwise a new protocol object is
  made and its \<open>connection_made\<close> runs.
\<close>

definition create_connection :: "bool \<Rightarrow> world \<Rightarrow> exn + (conn \<times> world)" where
  "create_connection up w =
     (if \<not> up then Inl OSError
      else (case connection_made (fresh w) (process w) of
              (Some e, c, r) \<Rightarrow> Inl e
            | (None, c, r) \<Rightarrow>
                Inr (c, w\<lparr>protocols := (protocols w)(self_id c \<mapsto> c),
                          fresh := fresh w + 1, process := r\<rparr>)))"

text \<open>
  \<open>connect\<close> makes the wrapper, stores it in the protocol's \<open>wrapper\<close> field, stores the
  parameters in \<open>server_info\<close> and returns the wrapper.
\<close>

definition connect :: "pystr \<Rightarrow> int \<Rightarrow> bool \<Rightarrow> bool \<Rightarrow> world \<Rightarrow> exn + (nat \<times> world)" where
  "connect server port_arg use_ssl up w =
     (case create_connection up w of
        Inl e \<Rightarrow> Inl e
      | Inr (c, w1) \<Rightarrow>
          (let wr = fresh w1;
               c' = c\<lparr>wrapper := Some wr,
                      server_info :=
                        Some \<lparr>si_host = server, si_port = port_arg, si_ssl = use_ssl\<rparr>\<rparr>
           in Inr (wr,
                   w1\<lparr>protocols := (protocols w1)(self_id c \<mapsto> c'),
                      wrappers := (wrappers w1)(wr \<mapsto> self_id c),
                      fresh := wr + 1\<rparr>)))"

text \<open>
  \<open>reconnect(client_wrapper)\<close>. The argument is the sender of \<open>connection-lost\<close>: a
  wrapper or \<open>None\<close>. \<open>None.server_info\<close> raises \<open>AttributeError\<close>; \<open>**\<close> applied to a
  function raises \<open>TypeError\<close>. The new protocol gets neither \<open>wrapper\<close> nor
  \<open>server_info\<close> assigned; only the wrapper's \<open>protocol\<close> is set. (An identity that
  names no object cannot occur in Python; the model answers \<open>AttributeError\<close> there.)
\<close>

definition reconnect :: "nat option \<Rightarrow> bool \<Rightarrow> world \<Rightarrow> exn option \<times> world" where
  "reconnect client_wrapper up w =
     (case client_wrapper of
        None \<Rightarrow> (Some AttributeError, w)
      | Some wr \<Rightarrow>
          (case Option.bind (wrappers w wr) (protocols w) of
             None \<Rightarrow> (Some AttributeError, w)
           | Some c \<Rightarrow>
               (case getattr_server_info c of
                  Closure _ _ \<Rightarrow> (Some TypeError, w)
                | Mapping info \<Rightarrow>
                    (case create_connection up w of
                       Inl e \<Rightarrow> (Some e, w)
                     | Inr (c', w1) \<Rightarrow>
                         (None, w1\<lparr>wrappers := (wrappers w1)(wr \<mapsto> self_id c')\<rparr>)))))"

text \<open>
  \<open>connection_lost\<close> of the protocol \<open>p\<close>: the signal is sent with the protocol's
  \<open>wrapper\<close> field as sender, and the receiver \<open>reconnect\<close>, connected by this module,
  runs with that sender.
\<close>

definition connection_lost :: "nat \<Rightarrow> bool \<Rightarrow> world \<Rightarrow> exn option \<times> world" where
  "connection_lost p up w =
     (case protocols w p of
        None \<Rightarrow> (Some AttributeError, w)
      | Some c \<Rightarrow>
          reconnect (wrapper c) up
            (w\<lparr>process := send_signal ''connection-lost'' (wrapper_obj (wrapper c)) [] (process w)\<rparr>))"

text \<open>
  The empty process, and the connection and process state right after the first
  \<open>connection_made\<close> in it.
\<close>

definition world0 :: world where
  "world0 =
     \<lparr>protocols = Map.empty, wrappers = Map.empty, fresh = 0,
      process = \<lparr>signals = [], timers = [], plugins = [], imported = []\<rparr>\<rparr>"

definition conn0 :: conn where
  "conn0 = fst (snd (connection_made 0 (process world0)))"

definition rt0 :: runtime where
  "rt0 = snd (snd (connection_made 0 (process world0)))"

section \<open>Facts about the Python values\<close>

lemma decode_Nil [simp]: "decode [] = Some []"
  by (simp add: decode.simps)

lemma unat_byte: "n < 256 \<Longrightarrow> unat (of_nat n :: 8 word) = n"
  by (simp add: unat_of_nat)

lemma decode_one1: "unat b0 < 0x80 \<Longrightarrow> decode_one (b0 # r) = Some (unat b0, r)"
  by simp

lemma decode_one2:
  "unat b0 = n0 \<Longrightarrow> 0xC2 \<le> n0 \<Longrightarrow> n0 \<le> 0xDF \<Longrightarrow> unat b1 = n1 \<Longrightarrow> 0x80 \<le> n1 \<Longrightarrow> n1 \<le> 0xBF
   \<Longrightarrow> decode_one (b0 # b1 # r) = Some ((n0 - 0xC0) * 64 + (n1 - 0x80), r)"
  by (simp add: cont_def)

lemma decode_one3:
  "unat b0 = n0 \<Longrightarrow> 0xE0 \<le> n0 \<Longrightarrow> n0 \<le> 0xEF \<Longrightarrow> unat b1 = n1
   \<Longrightarrow> (if n0 = 0xE0 then 0xA0 else 0x80) \<le> n1 \<Longrightarrow> n1 \<le> (if n0 = 0xED then 0x9F else 0xBF)
   \<Longrightarrow> unat b2 = n2 \<Longrightarrow> 0x80 \<le> n2 \<Longrightarrow> n2 \<le> 0xBF
   \<Longrightarrow> decode_one (b0 # b1 # b2 # r)
       = Some ((n0 - 0xE0) * 4096 + (n1 - 0x80) * 64 + (n2 - 0x80), r)"
  by (simp add: cont_def)

lemma decode_one4:
  "unat b0 = n0 \<Longrightarrow> 0xF0 \<le> n0 \<Longrightarrow> n0 \<le> 0xF4 \<Longrightarrow> unat b1 = n1
   \<Longrightarrow> (if n0 = 0xF0 then 0x90 else 0x80) \<le> n1 \<Longrightarrow> n1 \<le> (if n0 = 0xF4 then 0x8F else 0xBF)
   \<Longrightarrow> unat b2 = n2 \<Longrightarrow> 0x80 \<le> n2 \<Longrightarrow> n2 \<le> 0xBF \<Longrightarrow> unat b3 = n3 \<Longrightarrow> 0x80 \<le> n3 \<Longrightarrow> n3 \<le> 0xBF
   \<Longrightarrow> decode_one (b0 # b1 # b2 # b3 # r)
       = Some ((n0 - 0xF0) * 262144 + (n1 - 0x80) * 4096 + (n2 - 0x80) * 64 + (n3 - 0x80), r)"
  by (simp add: cont_def)

lemma split3:
  fixes c :: nat
  obtains x y z where "c = z * 4096 + y * 64 + x" "x < 64" "y < 64"
    "c mod 64 = x" "c div 64 mod 64 = y" "c div 4096 = z"
proof -
  have q: "c div 4096 = c div 64 div 64" by (simp add: div_mult2_eq)
  have 1: "c = c div 64 * 64 + c mod 64" by simp
  have 2: "c div 64 = c div 64 div 64 * 64 + c div 64 mod 64" by simp
  have "c = c div 4096 * 4096 + c div 64 mod 64 * 64 + c mod 64"
    unfolding q using 1 2 by linarith
  then show ?thesis using that [of "c div 4096" "c div 64 mod 64" "c mod 64"] by simp
qed
lemma split4:
  fixes c :: nat
  obtains x y z w where "c = w * 262144 + z * 4096 + y * 64 + x" "x < 64" "y < 64" "z < 64"
    "c mod 64 = x" "c div 64 mod 64 = y" "c div 4096 mod 64 = z" "c div 262144 = w"
proof -
  have q: "c div 4096 = c div 64 div 64" by (simp add: div_mult2_eq)
  have q2: "c div 262144 = c div 64 div 64 div 64" by (simp add: div_mult2_eq)
  have 1: "c = c div 64 * 64 + c mod 64" by simp
  have 2: "c div 64 = c div 64 div 64 * 64 + c div 64 mod 64" by simp
  have 3: "c div 64 div 64 = c div 64 div 64 div 64 * 64 + c div 64 div 64 mod 64" by simp
  have "c = c div 262144 * 262144 + c div 4096 mod 64 * 4096 + c div 64 mod 64 * 64 + c mod 64"
    unfolding q q2 using 1 2 3 by linarith
  then show ?thesis
    using that [of "c div 262144" "c div 4096 mod 64" "c div 64 mod 64" "c mod 64"] by simp
qed
lemma enc1: "c < 0x80 \<Longrightarrow> decode_one ((of_nat c :: 8 word) # r) = Some (c, r)"
  using decode_one1 [of "of_nat c" r] by (simp add: unat_byte)

lemma enc2:
  assumes "\<not> c < 0x80" "c < 0x800"
  shows "decode_one ((of_nat (0xC0 + c div 64) :: 8 word) # of_nat (0x80 + c mod 64) # r) = Some (c, r)"
proof -
  define y x where "y = c div 64" and "x = c mod 64"
  have c: "c = y * 64 + x" and x: "x < 64" by (simp_all add: y_def x_def)
  have y: "2 \<le> y" "y \<le> 31" using assms c x by linarith+
  have a: "unat (of_nat (0xC0 + y) :: 8 word) = 0xC0 + y"
    using y by (intro unat_byte) linarith
  have b: "unat (of_nat (0x80 + x) :: 8 word) = 0x80 + x"
    using x by (intro unat_byte) linarith
  have "decode_one ((of_nat (0xC0 + y) :: 8 word) # of_nat (0x80 + x) # r)
      = Some ((0xC0 + y - 0xC0) * 64 + (0x80 + x - 0x80), r)"
    using x y by (intro decode_one2 a b) linarith+
  also have "(0xC0 + y - 0xC0) * 64 + (0x80 + x - 0x80) = c"
    using c by simp
  finally show ?thesis unfolding y_def x_def .
qed

lemma enc3:
  assumes "\<not> c < 0x800" "c < 0x10000" "\<not> (0xD800 \<le> c \<and> c \<le> 0xDFFF)"
  shows "decode_one ((of_nat (0xE0 + c div 4096) :: 8 word) # of_nat (0x80 + c div 64 mod 64)
            # of_nat (0x80 + c mod 64) # r) = Some (c, r)"
proof -
  obtain x y z where c: "c = z * 4096 + y * 64 + x" and x: "x < 64" and y: "y < 64"
    and eqs: "c mod 64 = x" "c div 64 mod 64 = y" "c div 4096 = z"
    by (rule split3)
  have z: "z \<le> 15" using assms c by linarith
  have a: "unat (of_nat (0xE0 + z) :: 8 word) = 0xE0 + z"
    using z by (intro unat_byte) linarith
  have b: "unat (of_nat (0x80 + y) :: 8 word) = 0x80 + y"
    using y by (intro unat_byte) linarith
  have d: "unat (of_nat (0x80 + x) :: 8 word) = 0x80 + x"
    using x by (intro unat_byte) linarith
  have lo: "(if 0xE0 + z = 0xE0 then 0xA0 else 0x80) \<le> 0x80 + y"
    using assms c x y by (simp split: if_splits)
  have hi: "0x80 + y \<le> (if 0xE0 + z = 0xED then 0x9F else 0xBF)"
  proof (cases "z = 13")
    case True
    then have "y \<le> 31" using assms c x y by linarith
    then show ?thesis using True by simp
  next
    case False
    then show ?thesis using y by simp
  qed
  have "decode_one ((of_nat (0xE0 + z) :: 8 word) # of_nat (0x80 + y) # of_nat (0x80 + x) # r)
      = Some ((0xE0 + z - 0xE0) * 4096 + (0x80 + y - 0x80) * 64 + (0x80 + x - 0x80), r)"
    using x z by (intro decode_one3 a b d lo hi) linarith+
  also have "(0xE0 + z - 0xE0) * 4096 + (0x80 + y - 0x80) * 64 + (0x80 + x - 0x80) = c"
    using c by simp
  finally show ?thesis unfolding eqs .
qed

lemma enc4:
  assumes "\<not> c < 0x10000" "c < 0x110000"
  shows "decode_one ((of_nat (0xF0 + c div 262144) :: 8 word) # of_nat (0x80 + c div 4096 mod 64)
            # of_nat (0x80 + c div 64 mod 64) # of_nat (0x80 + c mod 64) # r) = Some (c, r)"
proof -
  obtain x y z w where c: "c = w * 262144 + z * 4096 + y * 64 + x"
    and x: "x < 64" and y: "y < 64" and z: "z < 64"
    and eqs: "c mod 64 = x" "c div 64 mod 64 = y" "c div 4096 mod 64 = z" "c div 262144 = w"
    by (rule split4)
  have w: "w \<le> 4" using assms c by linarith
  have a: "unat (of_nat (0xF0 + w) :: 8 word) = 0xF0 + w"
    using w by (intro unat_byte) linarith
  have b: "unat (of_nat (0x80 + z) :: 8 word) = 0x80 + z"
    using z by (intro unat_byte) linarith
  have b2: "unat (of_nat (0x80 + y) :: 8 word) = 0x80 + y"
    using y by (intro unat_byte) linarith
  have d: "unat (of_nat (0x80 + x) :: 8 word) = 0x80 + x"
    using x by (intro unat_byte) linarith
  have lo: "(if 0xF0 + w = 0xF0 then 0x90 else 0x80) \<le> 0x80 + z"
    using assms c x y z by (simp split: if_splits)
  have hi: "0x80 + z \<le> (if 0xF0 + w = 0xF4 then 0x8F else 0xBF)"
    using assms c x y z by (simp split: if_splits)
  have "decode_one ((of_nat (0xF0 + w) :: 8 word) # of_nat (0x80 + z) # of_nat (0x80 + y)
            # of_nat (0x80 + x) # r)
      = Some ((0xF0 + w - 0xF0) * 262144 + (0x80 + z - 0x80) * 4096 + (0x80 + y - 0x80) * 64
               + (0x80 + x - 0x80), r)"
    using x y w by (intro decode_one4 a b b2 d lo hi) linarith+
  also have "(0xF0 + w - 0xF0) * 262144 + (0x80 + z - 0x80) * 4096 + (0x80 + y - 0x80) * 64
               + (0x80 + x - 0x80) = c"
    using c by simp
  finally show ?thesis unfolding eqs .
qed

lemma decode_one_encode_cp:
  assumes "encode_cp c = Some b"
  shows "decode_one (b @ r) = Some (c, r)"
  using assms enc1 [of c r] enc2 [of c r] enc3 [of c r] enc4 [of c r]
  by (auto simp: encode_cp_def split: if_splits)

lemma encode_cp_nonempty: "encode_cp c = Some b \<Longrightarrow> b \<noteq> []"
  by (auto simp: encode_cp_def split: if_splits)

lemma decode_encode: "encode s = Some b \<Longrightarrow> decode b = Some s"
proof (induction s arbitrary: b)
  case Nil
  then show ?case by simp
next
  case (Cons c cs)
  from Cons.prems obtain b1 b2 where c: "encode_cp c = Some b1" and cs: "encode cs = Some b2"
    and b: "b = b1 @ b2"
    by (auto split: option.splits)
  have "decode_one (b1 @ b2) = Some (c, b2)" using c by (rule decode_one_encode_cp)
  moreover have "decode b2 = Some cs" using cs by (rule Cons.IH)
  moreover have "b1 @ b2 \<noteq> []" using encode_cp_nonempty [OF c] by simp
  ultimately show ?case unfolding b by (subst decode.simps) simp
qed

lemma join_str_spaces:
  "front \<noteq> [] \<Longrightarrow> sep @ join_str sep front = concat (map (\<lambda>a. sep @ a) front)"
  by (induction sep front rule: join_str.induct) simp_all

section \<open>The first connection\<close>

lemma conn0_eq: "conn0 = \<lparr>self_id = 0, transport = [], wrapper = None, last_ping = Infinity,
        last_pong = Finite 0, buf = [], old_nickname = None, nickname = [],
        server_supports = [], queue = [], queue_timer = 3 / 2, caps = [],
        server_info = None\<rparr>"
  by (simp add: conn0_def connection_made_def process_queue_def)

lemma rt0_eq: "rt0 = \<lparr>signals = [Send ''connected'' (Protocol 0) []], timers = [(3 / 2, ProcessQueue 0)], plugins = [], imported = []\<rparr>"
  by (simp add: rt0_def connection_made_def process_queue_def world0_def send_signal_def call_later_def)

section \<open>The generic fallback\<close>

text \<open>
  C4. A call of the generic fallback with at least two arguments enqueues exactly one
  line: the upper-cased attribute name, then every argument but the last, each after one
  space, then \<open>" :"\<close> and the last argument. Nothing else of the connection changes. In
  particular \<open>mode("#chan", "+o", "alice")\<close> enqueues \<open>MODE #chan +o :alice\<close>.
\<close>

theorem send_command_format:
  "(2 \<le> length args \<longrightarrow>
      send_command tbl c attr args =
        Inr (c\<lparr>queue := queue c @
               [Str (upper tbl attr @ concat (map (\<lambda>a. str '' '' @ a) (butlast args))
                       @ str '' :'' @ last args)]\<rparr>))
   \<and> send_command tbl c (str ''mode'') [str ''#chan'', str ''+o'', str ''alice'']
       = Inr (c\<lparr>queue := queue c @ [Str (str ''MODE #chan +o :alice'')]\<rparr>)"
proof (intro conjI impI)
  assume len: "2 \<le> length args"
  then have ne: "args \<noteq> []" and front: "butlast args \<noteq> []"
    by (cases args; cases "tl args"; auto)+
  show "send_command tbl c attr args =
        Inr (c\<lparr>queue := queue c @
               [Str (upper tbl attr @ concat (map (\<lambda>a. str '' '' @ a) (butlast args))
                       @ str '' :'' @ last args)]\<rparr>)"
    using ne join_str_spaces [OF front, of "str '' ''"]
    by (simp add: send_command_def writeln_def)
next
  show "send_command tbl c (str ''mode'') [str ''#chan'', str ''+o'', str ''alice'']
       = Inr (c\<lparr>queue := queue c @ [Str (str ''MODE #chan +o :alice'')]\<rparr>)"
    by (simp add: send_command_def writeln_def upper_def upper_cp_def str_def)
qed

theorem send_command_format_witness:
  "2 \<le> length [str ''#chan'', str ''+o'', str ''alice'']
   \<and> send_command (\<lambda>c. [c]) conn0 (str ''mode'') [str ''#chan'', str ''+o'', str ''alice'']
       = Inr (conn0\<lparr>queue := queue conn0 @ [Str (str ''MODE #chan +o :alice'')]\<rparr>)"
proof -
  have len: "2 \<le> length [str ''#chan'', str ''+o'', str ''alice'']" by simp
  from send_command_format [of "[str ''#chan'', str ''+o'', str ''alice'']" "\<lambda>c. [c]" conn0
      "str ''mode''", THEN conjunct1, rule_format, OF len]
  show ?thesis by (simp add: upper_def upper_cp_def str_def)
qed

text \<open>
  C10. With exactly one argument the enqueued line is the upper-cased attribute name, two
  spaces, a colon and the argument: \<open>nick("newnick")\<close> enqueues \<open>NICK  :newnick\<close>.
\<close>

theorem send_command_single_argument:
  "send_command tbl c attr [a]
     = Inr (c\<lparr>queue := queue c @ [Str (upper tbl attr @ str ''  :'' @ a)]\<rparr>)
   \<and> send_command tbl c (str ''nick'') [str ''newnick'']
       = Inr (c\<lparr>queue := queue c @ [Str (str ''NICK  :newnick'')]\<rparr>)"
  by (simp add: send_command_def writeln_def upper_def upper_cp_def str_def)

theorem send_command_single_argument_witness:
  "send_command (\<lambda>c. [c]) conn0 (str ''nick'') [str ''newnick'']
       = Inr (conn0\<lparr>queue := queue conn0 @ [Str (str ''NICK  :newnick'')]\<rparr>)"
  by (rule send_command_single_argument [THEN conjunct2])

section \<open>\<open>load_plugins\<close>\<close>

lemma load_plugins_loop_skip:
  "set ps \<subseteq> set args \<Longrightarrow> load_plugins_loop body args ps rt = Inr rt"
  by (induction ps) auto

text \<open>
  C9. \<open>load_plugins\<close> imports nothing, whatever its arguments and whatever importing a
  module would do: every requested name is found in the argument tuple it is tested
  against, so the process state (the global \<open>plugins\<close> list and the record of imports
  included) is returned as it was.
\<close>

theorem load_plugins_imports_nothing: "load_plugins body args rt = Inr rt"
  by (simp add: load_plugins_def load_plugins_loop_skip)

theorem load_plugins_imports_nothing_witness:
  "load_plugins (\<lambda>name r. Inl OSError) [str ''asyncirc.plugins.sasl'', str ''core''] rt0 = Inr rt0"
  by (rule load_plugins_imports_nothing)

end
